theory Spec2Isabelle
  imports Main "HOL-Library.Sublist" "HOL-Library.Multiset" "HOL-Library.Word"
begin

section \<open>Prompt construction (mix\_images.py, generate\_table\_prompt)\<close>

text \<open>
  Python strings are modelled as \<open>string\<close>. The two templates are the literal texts of
  \<open>generate_table_prompt\<close>, each without the trailing f-string hole for
  \<open>legs_instruction\<close>.
\<close>

definition room_template :: string where
  "room_template =
     ''Create a photorealistic visualization by following these steps: '' @
     ''1) First, combine the table shape from image 1, the table base from image 2, '' @
     ''and the wood finish/color from image 3 into one complete, elegant custom dining table. '' @
     ''2) Then, place this complete table naturally in the room shown in image 4. '' @
     ''Match the perspective, lighting, and shadows of the room precisely. '' @
     ''The table should integrate seamlessly as if it belongs in this space, '' @
     ''with realistic proportions, natural placement on the floor, '' @
     ''and appropriate shadows and reflections. '' @
     ''The final image should look like a professional photograph of this custom table '' @
     ''in the actual room.''"

definition showroom_template :: string where
  "showroom_template =
     ''Create a new image by combining the elements from the provided images. '' @
     ''Take [the table shape] from image 1 and combine it with [the table base] from image 2, '' @
     ''applying [the wood finish and color] from image 3. '' @
     ''The final image should be [a complete, elegant custom-made dining table '' @
     ''placed prominently in a modern, stylish living room with natural lighting].''"

text \<open>
  \<open>legs_instruction = f" IMPORTANT: The table must have exactly {legs} legs." if legs else ""\<close>;
  a Python string is truthy when it is not empty.
\<close>

definition legs_instruction :: "string \<Rightarrow> string" where
  "legs_instruction legs =
     (if legs \<noteq> [] then '' IMPORTANT: The table must have exactly '' @ legs @ '' legs.''
      else [])"

definition generate_table_prompt :: "bool \<Rightarrow> string \<Rightarrow> string" where
  "generate_table_prompt with_room legs =
     (if with_room then room_template @ legs_instruction legs
      else showroom_template @ legs_instruction legs)"

section \<open>Values and the outside world\<close>

text \<open>
  \<open>str(n)\<close> for a Python int, as the f-strings of the source format the timestamp, the
  file index and the number of images.
\<close>

definition digit_char :: "nat \<Rightarrow> char" where
  "digit_char d = ''0123456789'' ! d"

fun str_nat :: "nat \<Rightarrow> string" where
  "str_nat n = (if n < 10 then [digit_char n] else str_nat (n div 10) @ [digit_char (n mod 10)])"

declare str_nat.simps [simp del]

definition str_int :: "int \<Rightarrow> string" where
  "str_int i = (if i < 0 then CHR ''-'' # str_nat (nat (- i)) else str_nat (nat i))"

text \<open>An f-string hole holding an optional string: \<open>None\<close> is formatted as the text None.\<close>

definition str_opt :: "string option \<Rightarrow> string" where
  "str_opt x = (case x of None \<Rightarrow> ''None'' | Some s \<Rightarrow> s)"

text \<open>\<open>os.path.join\<close> of two components, as \<open>posixpath\<close> defines it.\<close>

definition os_path_join :: "string \<Rightarrow> string \<Rightarrow> string" where
  "os_path_join a b =
     (if b \<noteq> [] \<and> hd b = CHR ''/'' then b
      else if a = [] \<or> last a = CHR ''/'' then a @ b
      else a @ ''/'' @ b)"

text \<open>A text between single quotes, as Python's messages show names and paths.\<close>

definition quoted :: "string \<Rightarrow> string" where
  "quoted s = [CHR 0x27] @ s @ [CHR 0x27]"

text \<open>
  \<open>repr\<close> of a Python string, as \<open>str\<close> of an \<open>OSError\<close> shows the file name: double
  quotes when the text holds a single quote and no double quote, single quotes
  otherwise; the quote in use and the backslash are escaped, tab, newline and carriage
  return have their letters, and the other control characters are written \<open>\xhh\<close>.
  The bytes of a character beyond ASCII are left as they are (a printable character).
\<close>

definition hex_digit :: "nat \<Rightarrow> char" where
  "hex_digit d = ''0123456789abcdef'' ! d"

definition repr_char :: "char \<Rightarrow> char \<Rightarrow> string" where
  "repr_char q c =
     (if c = q \<or> c = CHR 0x5C then [CHR 0x5C, c]
      else if c = CHR 0x09 then [CHR 0x5C, CHR ''t'']
      else if c = CHR 0x0A then [CHR 0x5C, CHR ''n'']
      else if c = CHR 0x0D then [CHR 0x5C, CHR ''r'']
      else if (of_char c :: nat) < 32 \<or> c = CHR 0x7F then
        [CHR 0x5C, CHR ''x'', hex_digit ((of_char c :: nat) div 16),
         hex_digit ((of_char c :: nat) mod 16)]
      else [c])"

definition py_repr :: "string \<Rightarrow> string" where
  "py_repr s =
     (let q = (if CHR 0x27 \<in> set s \<and> CHR 0x22 \<notin> set s then CHR 0x22 else CHR 0x27)
      in q # concat (map (repr_char q) s) @ [q])"

type_synonym bytes = "8 word list"

text \<open>The exceptions the modelled code raises or lets through.\<close>

datatype error =
    ValueError string
  | IndexError string
  | AttributeError string
  | FileNotFoundError string
  | TransportError string
  | HTTPException nat string
  | SystemExit nat

text \<open>
  The \<open>google.genai\<close> types, reduced to the attributes the source reads. Every attribute
  is optional there. The attribute \<open>text\<close> of a part is called \<open>part_text\<close>.
\<close>

datatype blob = Blob (data: "bytes option") (mime_type: "string option")

datatype part = Part (inline_data: "blob option") (part_text: "string option")

datatype content = Content (parts: "part list option")

datatype candidate = Candidate (content: "content option")

datatype chunk = Chunk (candidates: "candidate list option")

text \<open>
  A response stream is the chunks it yields and, when pulling the next chunk fails, the
  error raised after the last of them.
\<close>

type_synonym response_stream = "chunk list \<times> error option"

text \<open>
  Effects are recorded in a trace, in the order they happen: a line printed, a file
  written or removed, the call of \<open>client.models.generate_content_stream\<close> with its
  model name, contents and response modalities.
\<close>

datatype event =
    Print string
  | Write string bytes
  | Unlink string
  | RemoteCall string "part list" "string list"

text \<open>
  The state: the files (path and contents, the most recently written first), the trace,
  and how many times the clock has been read.
\<close>

record world =
  fs :: "(string \<times> bytes) list"
  trace :: "event list"
  ticks :: nat

text \<open>
  What the program takes from its platform: the environment variable
  \<open>GEMINI_API_KEY\<close>, the two tables of \<open>mimetypes\<close>, the value of
  \<open>int(time.time())\<close> at the k-th reading of the clock, and the remote model's answer
  to a request.
\<close>

record platform =
  api_key :: "string option"
  guess_type :: "string \<Rightarrow> string option"
  guess_extension :: "string \<Rightarrow> string option"
  now :: "nat \<Rightarrow> int"
  remote :: "string \<Rightarrow> part list \<Rightarrow> response_stream"

definition print :: "string \<Rightarrow> world \<Rightarrow> world" where
  "print s w = w\<lparr>trace := trace w @ [Print s]\<rparr>"

text \<open>
  \<open>open(file_name, "wb")\<close> and \<open>write\<close>: the file is created or replaced. Its directory
  is taken to exist and to be writable, so the write itself does not fail.
\<close>

definition write_file :: "string \<Rightarrow> bytes \<Rightarrow> world \<Rightarrow> world" where
  "write_file file_name d w =
     w\<lparr>fs := (file_name, d) # filter (\<lambda>(n, _). n \<noteq> file_name) (fs w),
       trace := trace w @ [Write file_name d]\<rparr>"

definition MODEL_NAME :: string where
  "MODEL_NAME = ''gemini-2.5-flash-image-preview''"

section \<open>The response demultiplexer (mix\_images.py)\<close>

text \<open>\<open>_save_binary_file\<close>\<close>

definition save_binary_file :: "string \<Rightarrow> bytes \<Rightarrow> world \<Rightarrow> world" where
  "save_binary_file file_name d w = print (''File saved to: '' @ file_name) (write_file file_name d w)"

text \<open>
  The body of the inner loop of \<open>_process_api_stream_response\<close>, for one part: the
  current file index goes in, the next one comes out. \<open>process_part\<close> is the
  \<open>if\<close>/\<open>elif\<close>, \<open>save_image\<close> its first branch and \<open>print_text\<close> its second, and
  \<open>file_name_of\<close> is the \<open>os.path.join\<close> with the f-string. \<open>part.inline_data and
  part.inline_data.data\<close> holds when both are present and the bytes are not empty;
  \<open>elif part.text\<close> when the text is present and not empty. The clock is read before
  the extension is looked up; \<open>mimetypes.guess_extension(None)\<close> raises AttributeError.
\<close>

definition file_name_of :: "platform \<Rightarrow> string \<Rightarrow> int \<Rightarrow> nat \<Rightarrow> string \<Rightarrow> string" where
  "file_name_of pf output_dir timestamp file_index m =
     os_path_join output_dir
       (''remixed_image_'' @ str_int timestamp @ ''_'' @ str_int (int file_index) @
        str_opt (guess_extension pf m))"

definition print_text :: "part \<Rightarrow> nat \<Rightarrow> world \<Rightarrow> (error + nat) \<times> world" where
  "print_text p file_index w =
     (case part_text p of
        None \<Rightarrow> (Inr file_index, w)
      | Some t \<Rightarrow> if t \<noteq> [] then (Inr file_index, print t w) else (Inr file_index, w))"

definition save_image :: "platform \<Rightarrow> string \<Rightarrow> blob \<Rightarrow> bytes \<Rightarrow> nat \<Rightarrow> world \<Rightarrow> (error + nat) \<times> world" where
  "save_image pf output_dir b d file_index w =
     (let timestamp = now pf (ticks w);
          w1 = w\<lparr>ticks := Suc (ticks w)\<rparr>
      in case mime_type b of
           None \<Rightarrow> (Inl (AttributeError (quoted ''NoneType'' @ '' object has no attribute '' @ quoted ''lower'')), w1)
         | Some m \<Rightarrow>
             (Inr (Suc file_index),
              save_binary_file (file_name_of pf output_dir timestamp file_index m) d w1))"

definition process_part :: "platform \<Rightarrow> string \<Rightarrow> part \<Rightarrow> nat \<Rightarrow> world \<Rightarrow> (error + nat) \<times> world" where
  "process_part pf output_dir p file_index w =
     (case inline_data p of
        None \<Rightarrow> print_text p file_index w
      | Some b \<Rightarrow>
          (case data b of
             None \<Rightarrow> print_text p file_index w
           | Some d \<Rightarrow>
               if d \<noteq> [] then save_image pf output_dir b d file_index w
               else print_text p file_index w))"

fun process_parts :: "platform \<Rightarrow> string \<Rightarrow> part list \<Rightarrow> nat \<Rightarrow> world \<Rightarrow> (error + nat) \<times> world" where
  "process_parts pf output_dir [] file_index w = (Inr file_index, w)"
| "process_parts pf output_dir (p # ps) file_index w =
     (case process_part pf output_dir p file_index w of
        (Inl e, w') \<Rightarrow> (Inl e, w')
      | (Inr file_index', w') \<Rightarrow> process_parts pf output_dir ps file_index' w')"

text \<open>
  One chunk: the guard of the outer loop and then the inner loop. \<open>chunk.candidates[0]\<close>
  on an empty list raises IndexError.
\<close>

definition process_chunk :: "platform \<Rightarrow> string \<Rightarrow> chunk \<Rightarrow> nat \<Rightarrow> world \<Rightarrow> (error + nat) \<times> world" where
  "process_chunk pf output_dir c file_index w =
     (case candidates c of
        None \<Rightarrow> (Inr file_index, w)
      | Some [] \<Rightarrow> (Inl (IndexError ''list index out of range''), w)
      | Some (c0 # _) \<Rightarrow>
          (case content c0 of
             None \<Rightarrow> (Inr file_index, w)
           | Some ct \<Rightarrow>
               (case parts ct of
                  None \<Rightarrow> (Inr file_index, w)
                | Some ps \<Rightarrow> process_parts pf output_dir ps file_index w)))"

fun process_chunks :: "platform \<Rightarrow> string \<Rightarrow> chunk list \<Rightarrow> nat \<Rightarrow> world \<Rightarrow> (error + nat) \<times> world" where
  "process_chunks pf output_dir [] file_index w = (Inr file_index, w)"
| "process_chunks pf output_dir (c # cs) file_index w =
     (case process_chunk pf output_dir c file_index w of
        (Inl e, w') \<Rightarrow> (Inl e, w')
      | (Inr file_index', w') \<Rightarrow> process_chunks pf output_dir cs file_index' w')"

text \<open>
  \<open>_process_api_stream_response\<close>: the index starts at 0, the chunks are processed in
  order, and an error of the stream itself is raised once its chunks are consumed.
\<close>

definition process_api_stream_response :: "platform \<Rightarrow> response_stream \<Rightarrow> string \<Rightarrow> world \<Rightarrow> (error + unit) \<times> world" where
  "process_api_stream_response pf stream output_dir w =
     (case process_chunks pf output_dir (fst stream) 0 w of
        (Inl e, w') \<Rightarrow> (Inl e, w')
      | (Inr _, w') \<Rightarrow>
          (case snd stream of
             Some e \<Rightarrow> (Inl e, w')
           | None \<Rightarrow> (Inr (), w')))"

section \<open>The request composer (mix\_images.py)\<close>

text \<open>\<open>_get_mime_type\<close>\<close>

definition get_mime_type :: "platform \<Rightarrow> string \<Rightarrow> error + string" where
  "get_mime_type pf file_path =
     (case guess_type pf file_path of
        None \<Rightarrow> Inl (ValueError (''Could not determine MIME type for '' @ file_path))
      | Some m \<Rightarrow> Inr m)"

text \<open>
  \<open>_load_image_parts\<close>: each file is opened and read, then its MIME type is looked up;
  opening a path that is not there raises FileNotFoundError.
\<close>

fun load_image_parts :: "platform \<Rightarrow> world \<Rightarrow> string list \<Rightarrow> error + part list" where
  "load_image_parts pf w [] = Inr []"
| "load_image_parts pf w (image_path # rest) =
     (case map_of (fs w) image_path of
        None \<Rightarrow> Inl (FileNotFoundError image_path)
      | Some image_data \<Rightarrow>
          (case get_mime_type pf image_path of
             Inl e \<Rightarrow> Inl e
           | Inr m \<Rightarrow>
               (case load_image_parts pf w rest of
                  Inl e \<Rightarrow> Inl e
                | Inr ps \<Rightarrow> Inr (Part (Some (Blob (Some image_data) (Some m))) None # ps))))"

text \<open>
  \<open>remix_images\<close>: the key is checked, the parts are loaded, the text part is appended,
  the request is announced and sent, and the answer goes to the demultiplexer.
\<close>

definition remix_images :: "platform \<Rightarrow> string list \<Rightarrow> string \<Rightarrow> string \<Rightarrow> world \<Rightarrow> (error + unit) \<times> world" where
  "remix_images pf image_paths prompt output_dir w =
     (if api_key pf = None \<or> api_key pf = Some [] then
        (Inl (ValueError ''GEMINI_API_KEY environment variable not set.''), w)
      else
        (case load_image_parts pf w image_paths of
           Inl e \<Rightarrow> (Inl e, w)
         | Inr ps \<Rightarrow>
             (let contents = ps @ [Part None (Some prompt)];
                  w1 = print (''Remixing with '' @ str_int (int (length image_paths)) @
                              '' images and prompt: '' @ prompt) w;
                  w2 = w1\<lparr>trace := trace w1 @ [RemoteCall MODEL_NAME contents [''IMAGE'', ''TEXT'']]\<rparr>
              in process_api_stream_response pf (remote pf MODEL_NAME contents) output_dir w2)))"

section \<open>The command line (mix\_images.py, main)\<close>

text \<open>
  The arguments \<open>argparse\<close> hands to \<open>main\<close>. \<open>-i\<close> appends to a list, so in CLI mode
  \<open>args.image\<close> is a list; the other options are absent or a string.
\<close>

record args =
  arg_image :: "string list"
  arg_prompt :: "string option"
  arg_output_dir :: string
  arg_room_image :: "string option"
  arg_legs :: "string option"

text \<open>\<open>os.path.exists\<close>; the file system lists regular files only.\<close>

definition path_exists :: "world \<Rightarrow> string \<Rightarrow> bool" where
  "path_exists w p = (p \<in> set (map fst (fs w)))"

text \<open>The three symbols the messages of \<open>main\<close> start with, as UTF-8.\<close>

definition check_mark :: string where
  "check_mark = [CHR 0xE2, CHR 0x9C, CHR 0x93]"

definition warning_sign :: string where
  "warning_sign = [CHR 0xE2, CHR 0x9A, CHR 0xA0, CHR 0xEF, CHR 0xB8, CHR 0x8F]"

definition ballot_x :: string where
  "ballot_x = [CHR 0xE2, CHR 0x9C, CHR 0x97]"

text \<open>\<open>args.legs if args.legs else ""\<close>\<close>

definition legs_or_empty :: "string option \<Rightarrow> string" where
  "legs_or_empty l = (case l of None \<Rightarrow> [] | Some s \<Rightarrow> if s \<noteq> [] then s else [])"

text \<open>
  The \<open>else\<close> branch of \<open>main\<close> (CLI mode), up to and including the call of
  \<open>remix_images\<close>. \<open>main\<close> enters this branch only when \<open>args.image\<close> holds at least one
  path; the other branch, the interactive designer, is not part of this model, so
  \<open>main_cli\<close> stands for \<open>main\<close> on a list that is not empty and says nothing about
  \<open>main\<close> on an empty one. \<open>parser.error\<close> leaves the program with exit status 2.
  Directories are not modelled, so \<open>os.makedirs\<close> has no effect here.
\<close>

definition add_room_image :: "args \<Rightarrow> world \<Rightarrow> string list \<times> world" where
  "add_room_image a w =
     (case arg_room_image a of
        None \<Rightarrow> (arg_image a, w)
      | Some r \<Rightarrow>
          if r \<noteq> [] then
            (if length (arg_image a) = 3 \<and> path_exists w r then
               (arg_image a @ [r], print (check_mark @ '' Adding room image: '' @ r) w)
             else if length (arg_image a) \<noteq> 3 then
               (arg_image a,
                print (warning_sign @ ''  Warning: --room-image is designed for 3-image table workflow '' @
                       ''(vorm, onderstel, kleur). Ignoring room image.'') w)
             else if \<not> path_exists w r then
               (arg_image a, print (ballot_x @ '' Room image not found: '' @ r) w)
             else (arg_image a, w))
          else (arg_image a, w))"

definition default_prompt :: "args \<Rightarrow> nat \<Rightarrow> string" where
  "default_prompt a num_images =
     (if num_images = 4 \<and> (case arg_room_image a of None \<Rightarrow> False | Some r \<Rightarrow> r \<noteq> []) then
        generate_table_prompt True (legs_or_empty (arg_legs a))
      else if num_images = 3 then
        generate_table_prompt False (legs_or_empty (arg_legs a))
      else if num_images = 1 then
        ''Turn this image into a professional quality studio shoot with better lighting and depth of field.''
      else
        ''Combine the subjects of these images in a natural way, producing a new image.'')"

definition main_cli :: "platform \<Rightarrow> args \<Rightarrow> world \<Rightarrow> (error + unit) \<times> world" where
  "main_cli pf a w =
     (case add_room_image a w of
        (all_image_paths, w1) \<Rightarrow>
          (let num_images = length all_image_paths in
           if \<not> (1 \<le> num_images \<and> num_images \<le> 5) then (Inl (SystemExit 2), w1)
           else
             (let final_prompt =
                    (case arg_prompt a of
                       None \<Rightarrow> default_prompt a num_images
                     | Some p \<Rightarrow> p)
              in remix_images pf all_image_paths final_prompt (arg_output_dir a) w1)))"

section \<open>The web endpoint (api.py, generate\_table)\<close>

text \<open>
  \<open>pathlib\<close>, for POSIX paths: the components of a path are what stands between the
  slashes, without the empty ones and the single dots; \<open>Path(s).name\<close> is the last
  component, or the empty string when there is none. \<open>path_child d n\<close> is the text of
  \<open>d / n\<close> for a directory \<open>d\<close> that does not end in a slash and a name \<open>n\<close> without a
  slash.
\<close>

fun split_on :: "char \<Rightarrow> string \<Rightarrow> string list" where
  "split_on c [] = [[]]"
| "split_on c (x # xs) =
     (if x = c then [] # split_on c xs
      else (case split_on c xs of [] \<Rightarrow> [[x]] | y # ys \<Rightarrow> (x # y) # ys))"

definition path_name :: "string \<Rightarrow> string" where
  "path_name s =
     (case rev (filter (\<lambda>c. c \<noteq> [] \<and> c \<noteq> ''.'') (split_on CHR ''/'' s)) of
        [] \<Rightarrow> []
      | c # _ \<Rightarrow> c)"

definition path_child :: "string \<Rightarrow> string \<Rightarrow> string" where
  "path_child d n = (if n = [] then d else d @ ''/'' @ n)"

text \<open>\<open>safe_filename\<close>\<close>

definition safe_filename :: "string \<Rightarrow> string" where
  "safe_filename filename = path_name filename"

text \<open>\<open>OUTPUT_DIR = BASE_DIR / "output"\<close> and \<open>MAX_FILE_SIZE\<close>\<close>

definition OUTPUT_DIR :: "string \<Rightarrow> string" where
  "OUTPUT_DIR base_dir = path_child base_dir ''output''"

definition MAX_FILE_SIZE :: nat where
  "MAX_FILE_SIZE = 10 * 1024 * 1024"

text \<open>
  \<open>str(e)\<close> for the exceptions of the model; a \<open>FileNotFoundError\<close> shows the \<open>repr\<close> of
  its file name, and the \<open>HTTPException\<close> of Starlette its status code and its detail.
\<close>

definition str_error :: "error \<Rightarrow> string" where
  "str_error e =
     (case e of
        ValueError m \<Rightarrow> m
      | IndexError m \<Rightarrow> m
      | AttributeError m \<Rightarrow> m
      | FileNotFoundError p \<Rightarrow> ''[Errno 2] No such file or directory: '' @ py_repr p
      | TransportError m \<Rightarrow> m
      | HTTPException code detail \<Rightarrow> str_int (int code) @ '': '' @ detail
      | SystemExit code \<Rightarrow> str_int (int code))"

text \<open>\<open>except Exception\<close> catches every error of the model but \<open>SystemExit\<close>.\<close>

definition is_exception :: "error \<Rightarrow> bool" where
  "is_exception e = (case e of SystemExit _ \<Rightarrow> False | _ \<Rightarrow> True)"

text \<open>The body of the JSON answer of a successful generation.\<close>

record response =
  success :: bool
  output_url :: string
  filename :: string
  message :: string

text \<open>The loop over the three reference files: the first one missing is reported with 404.\<close>

fun check_files :: "world \<Rightarrow> (string \<times> string) list \<Rightarrow> error option" where
  "check_files w [] = None"
| "check_files w ((path, name) # rest) =
     (if \<not> path_exists w path then
        Some (HTTPException 404 (name @ '' file not found: '' @ path_name path))
      else check_files w rest)"

text \<open>\<open>room_photo_path.unlink()\<close> and the clean-up that guards it.\<close>

definition unlink :: "string \<Rightarrow> world \<Rightarrow> world" where
  "unlink p w = w\<lparr>fs := filter (\<lambda>(n, _). n \<noteq> p) (fs w), trace := trace w @ [Unlink p]\<rparr>"

definition cleanup :: "string option \<Rightarrow> world \<Rightarrow> world" where
  "cleanup room_photo_path w =
     (case room_photo_path of
        None \<Rightarrow> w
      | Some p \<Rightarrow> if path_exists w p then unlink p w else w)"

text \<open>
  \<open>OUTPUT_DIR.glob("remixed_image_*")\<close> sorted by time of modification, the latest
  first: the entries of the output directory whose name starts with the prefix, in the
  order in which the world keeps its files (the most recently written first, which is
  the order of \<open>st_mtime\<close> as long as no two files share one).
\<close>

definition is_output :: "string \<Rightarrow> string \<Rightarrow> bool" where
  "is_output base_dir p =
     (let d = OUTPUT_DIR base_dir @ ''/''; name = drop (length d) p
      in prefix d p \<and> prefix ''remixed_image_'' name \<and> CHR ''/'' \<notin> set name)"

definition output_files :: "string \<Rightarrow> world \<Rightarrow> string list" where
  "output_files base_dir w = filter (is_output base_dir) (map fst (fs w))"

text \<open>
  The upload of the room photo: \<open>validate_file_size\<close> and then the temporary file,
  named with the token that \<open>secrets.token_hex(8)\<close> draws for this request. An upload
  that is given counts as true.
\<close>

definition save_room_photo :: "string \<Rightarrow> string \<Rightarrow> bytes option \<Rightarrow> world \<Rightarrow> (error + string option) \<times> world" where
  "save_room_photo base_dir token room_photo w =
     (case room_photo of
        None \<Rightarrow> (Inr None, w)
      | Some contents \<Rightarrow>
          if length contents > MAX_FILE_SIZE then
            (Inl (HTTPException 413 ''File exceeds 10MB limit''), w)
          else
            (let room_photo_path =
                   path_child (OUTPUT_DIR base_dir) (''temp_room_'' @ token @ ''.jpg'')
             in (Inr (Some room_photo_path), write_file room_photo_path contents w)))"

text \<open>The \<open>except Exception\<close> clause of \<open>generate_table\<close>.\<close>

definition generation_failed :: "error \<Rightarrow> string option \<Rightarrow> world \<Rightarrow> (error + response) \<times> world" where
  "generation_failed e room_photo_path w =
     (if is_exception e then
        (Inl (HTTPException 500 (''Generation failed: '' @ str_error e)),
         cleanup room_photo_path w)
      else (Inl e, w))"

text \<open>The \<open>try\<close> block of \<open>generate_table\<close>.\<close>

definition generate_and_find :: "platform \<Rightarrow> string \<Rightarrow> string list \<Rightarrow> string \<Rightarrow> string option \<Rightarrow> world \<Rightarrow> (error + response) \<times> world" where
  "generate_and_find pf base_dir image_paths prompt room_photo_path w =
     (case remix_images pf image_paths prompt (OUTPUT_DIR base_dir) w of
        (Inl e, w1) \<Rightarrow> generation_failed e room_photo_path w1
      | (Inr _, w1) \<Rightarrow>
          (case output_files base_dir w1 of
             [] \<Rightarrow>
               generation_failed
                 (HTTPException 500 ''Image generation failed - no output produced'')
                 room_photo_path w1
           | latest_output # _ \<Rightarrow>
               (Inr \<lparr>success = True,
                     output_url = ''/api/output/'' @ path_name latest_output,
                     filename = path_name latest_output,
                     message = ''Table generated successfully''\<rparr>,
                cleanup room_photo_path w1)))"

text \<open>
  \<open>generate_table\<close>, for the directory \<open>BASE_DIR\<close> and the token of this request. The
  rate limit and the HTTP framing are left out.
\<close>

definition generate_table :: "platform \<Rightarrow> string \<Rightarrow> string \<Rightarrow> string \<Rightarrow> string \<Rightarrow> string \<Rightarrow> bytes option \<Rightarrow> world \<Rightarrow> (error + response) \<times> world" where
  "generate_table pf base_dir token vorm onderstel kleur room_photo w =
     (let vorm_path = path_child (path_child base_dir ''vorm'') (safe_filename vorm);
          onderstel_path = path_child (path_child base_dir ''onderstel'') (safe_filename onderstel);
          kleur_path = path_child (path_child base_dir ''kleur'') (safe_filename kleur)
      in case check_files w [(vorm_path, ''vorm''), (onderstel_path, ''onderstel''),
                             (kleur_path, ''kleur'')] of
           Some e \<Rightarrow> (Inl e, w)
         | None \<Rightarrow>
             (case save_room_photo base_dir token room_photo w of
                (Inl e, w1) \<Rightarrow> (Inl e, w1)
              | (Inr room_photo_path, w1) \<Rightarrow>
                  (let image_paths =
                         [vorm_path, onderstel_path, kleur_path] @
                         (case room_photo_path of None \<Rightarrow> [] | Some r \<Rightarrow> [r]);
                       prompt = generate_table_prompt (room_photo \<noteq> None) []
                   in if api_key pf = None \<or> api_key pf = Some [] then
                        (Inl (HTTPException 500
                           ''GEMINI_API_KEY not configured. Please set environment variable.''),
                         w1)
                      else generate_and_find pf base_dir image_paths prompt room_photo_path w1)))"

section \<open>Reading a run off its trace\<close>

text \<open>The files written, the lines printed and the remote calls made, each in order.\<close>

definition writes_of :: "event list \<Rightarrow> (string \<times> bytes) list" where
  "writes_of tr = concat (map (\<lambda>e. case e of Write n d \<Rightarrow> [(n, d)] | _ \<Rightarrow> []) tr)"

definition prints_of :: "event list \<Rightarrow> string list" where
  "prints_of tr = concat (map (\<lambda>e. case e of Print s \<Rightarrow> [s] | _ \<Rightarrow> []) tr)"

definition calls_of :: "event list \<Rightarrow> (string \<times> part list \<times> string list) list" where
  "calls_of tr = concat (map (\<lambda>e. case e of RemoteCall m c r \<Rightarrow> [(m, c, r)] | _ \<Rightarrow> []) tr)"









text \<open>
  The writes of a run of images: the clock reading and the index both advance by one
  from one image to the next.
\<close>

fun expected_writes :: "platform \<Rightarrow> string \<Rightarrow> nat \<Rightarrow> nat \<Rightarrow> (bytes \<times> string) list \<Rightarrow> (string \<times> bytes) list" where
  "expected_writes pf output_dir t i [] = []"
| "expected_writes pf output_dir t i ((d, m) # rest) =
     (file_name_of pf output_dir (now pf t) i m, d) #
     expected_writes pf output_dir (Suc t) (Suc i) rest"


text \<open>A request part holding an image, as \<open>_load_image_parts\<close> builds it.\<close>

definition image_part :: "bytes \<Rightarrow> string \<Rightarrow> part" where
  "image_part d m = Part (Some (Blob (Some d) (Some m))) None"

section \<open>A concrete platform and concrete inputs\<close>

text \<open>
  Two small tables in the manner of \<open>mimetypes\<close>, a clock that advances one second from
  one reading to the next, a remote model that always gives the same answer, and a
  world that holds three reference images.
\<close>

definition guess_type_ex :: "string \<Rightarrow> string option" where
  "guess_type_ex file_path =
     (if suffix ''.png'' file_path then Some ''image/png''
      else if suffix ''.jpg'' file_path \<or> suffix ''.jpeg'' file_path then Some ''image/jpeg''
      else None)"

definition guess_extension_ex :: "string \<Rightarrow> string option" where
  "guess_extension_ex m =
     (if m = ''image/png'' then Some ''.png''
      else if m = ''image/jpeg'' then Some ''.jpg''
      else None)"

definition clock_ex :: "nat \<Rightarrow> int" where
  "clock_ex k = 1700000000 + int k"

definition platform_ex :: "response_stream \<Rightarrow> platform" where
  "platform_ex answer =
     \<lparr>api_key = Some ''secret'', guess_type = guess_type_ex,
      guess_extension = guess_extension_ex, now = clock_ex,
      remote = (\<lambda>model contents. answer)\<rparr>"

definition world_ex :: world where
  "world_ex =
     \<lparr>fs = [(''vorm/rond.jpeg'', [1, 2]), (''onderstel/kruis.png'', [3]),
            (''kleur/eiken.jpg'', [4, 5, 6]), (''notes.bmp'', [7])],
      trace = [], ticks = 0\<rparr>"

definition png_part :: part where
  "png_part = Part (Some (Blob (Some [137, 80, 78, 71]) (Some ''image/png''))) None"

definition jpeg_part :: part where
  "jpeg_part = Part (Some (Blob (Some [255, 216, 255]) (Some ''image/jpeg''))) None"

definition chunk_of :: "part list \<Rightarrow> chunk" where
  "chunk_of ps = Chunk (Some [Candidate (Some (Content (Some ps)))])"

text \<open>
  The stream of the specification's example: chunk A carries the text hello and a PNG
  image, chunk B a JPEG image.
\<close>

definition stream_ex :: "chunk list" where
  "stream_ex = [chunk_of [Part None (Some ''hello''), png_part], chunk_of [jpeg_part]]"


definition world_stale_ex :: world where
  "world_stale_ex =
     \<lparr>fs = [(''/srv/output/remixed_image_1600000000_0.png'', [8]),
            (''/srv/vorm/rond.jpeg'', [1, 2]), (''/srv/onderstel/kruis.png'', [3]),
            (''/srv/kleur/eiken.jpg'', [4, 5, 6])],
      trace = [], ticks = 0\<rparr>"


section \<open>Facts about the trace and the demultiplexer\<close>

lemma writes_of_simps [simp]:
  "writes_of [] = []"
  "writes_of (xs @ ys) = writes_of xs @ writes_of ys"
  "writes_of (Write n d # xs) = (n, d) # writes_of xs"
  "writes_of (Print s # xs) = writes_of xs"
  "writes_of (Unlink n # xs) = writes_of xs"
  "writes_of (RemoteCall m c r # xs) = writes_of xs"
  by (simp_all add: writes_of_def)

lemma prints_of_simps [simp]:
  "prints_of [] = []"
  "prints_of (xs @ ys) = prints_of xs @ prints_of ys"
  "prints_of (Write n d # xs) = prints_of xs"
  "prints_of (Print s # xs) = s # prints_of xs"
  "prints_of (Unlink n # xs) = prints_of xs"
  "prints_of (RemoteCall m c r # xs) = prints_of xs"
  by (simp_all add: prints_of_def)

lemma calls_of_simps [simp]:
  "calls_of [] = []"
  "calls_of (xs @ ys) = calls_of xs @ calls_of ys"
  "calls_of (Write n d # xs) = calls_of xs"
  "calls_of (Print s # xs) = calls_of xs"
  "calls_of (Unlink n # xs) = calls_of xs"
  "calls_of (RemoteCall m c r # xs) = (m, c, r) # calls_of xs"
  by (simp_all add: calls_of_def)






lemma save_binary_file_effect:
  "ticks (save_binary_file n d w) = ticks w"
  "trace (save_binary_file n d w) = trace w @ [Write n d, Print (''File saved to: '' @ n)]"
  by (simp_all add: save_binary_file_def print_def write_file_def)





text \<open>The demultiplexer makes no remote call, whatever the stream holds.\<close>

lemma process_part_calls:
  "calls_of (trace (snd (process_part pf od p i w))) = calls_of (trace w)"
  by (auto simp: process_part_def print_text_def save_image_def Let_def print_def
                 save_binary_file_effect
           split: option.splits)

lemma process_parts_calls:
  "calls_of (trace (snd (process_parts pf od ps i w))) = calls_of (trace w)"
proof (induction ps arbitrary: i w)
  case Nil
  show ?case by simp
next
  case (Cons p ps)
  show ?case
  proof (cases "process_part pf od p i w")
    case (Pair r w1)
    then have "calls_of (trace w1) = calls_of (trace w)"
      using process_part_calls [of pf od p i w] by simp
    then show ?thesis using Pair Cons.IH [of _ w1]
      by (cases r) simp_all
  qed
qed

lemma process_chunk_calls:
  "calls_of (trace (snd (process_chunk pf od c i w))) = calls_of (trace w)"
  by (auto simp: process_chunk_def process_parts_calls split: option.splits list.splits)

lemma process_chunks_calls:
  "calls_of (trace (snd (process_chunks pf od cs i w))) = calls_of (trace w)"
proof (induction cs arbitrary: i w)
  case Nil
  show ?case by simp
next
  case (Cons c cs)
  show ?case
  proof (cases "process_chunk pf od c i w")
    case (Pair r w1)
    then have "calls_of (trace w1) = calls_of (trace w)"
      using process_chunk_calls [of pf od c i w] by simp
    then show ?thesis using Pair Cons.IH [of _ w1]
      by (cases r) simp_all
  qed
qed

lemma process_api_stream_response_calls:
  "calls_of (trace (snd (process_api_stream_response pf stream od w))) = calls_of (trace w)"
  using process_chunks_calls [of pf od "fst stream" 0 w]
  by (auto simp: process_api_stream_response_def split: prod.splits sum.splits option.splits)

lemma length_expected_writes [simp]:
  "length (expected_writes pf od t i imgs) = length imgs"
  by (induction imgs arbitrary: t i) auto




section \<open>The example run\<close>

lemmas ex_defs = platform_ex_def world_ex_def guess_type_ex_def guess_extension_ex_def clock_ex_def
  png_part_def jpeg_part_def chunk_of_def stream_ex_def

lemmas run_defs = process_api_stream_response_def process_chunk_def process_part_def
  print_text_def save_image_def save_binary_file_def write_file_def print_def file_name_of_def
  os_path_join_def str_opt_def Let_def

lemma str_int_ex:
  "str_int 1700000000 = ''1700000000''"
  "str_int 1700000001 = ''1700000001''"
  "str_int 0 = ''0''"
  "str_int 1 = ''1''"
  "str_int 3 = ''3''"
  by (simp_all add: str_int_def str_nat.simps digit_char_def)




section \<open>The names of the files written\<close>




section \<open>The index, the text parts and chunks without content\<close>



text \<open>
  A chunk without candidates, a first candidate without content and a content without
  parts are skipped: the index and the world stay as they are.
\<close>

lemma chunk_without_content_is_skipped:
  "candidates c = None \<or>
   (\<exists>c0 rest. candidates c = Some (c0 # rest) \<and>
      (content c0 = None \<or> (\<exists>ct. content c0 = Some ct \<and> parts ct = None))) \<Longrightarrow>
   process_chunk pf od c i w = (Inr i, w)"
  by (auto simp: process_chunk_def)

text \<open>
  C9. A chunk whose candidates list is empty is not skipped: the guard tests
  \<open>chunk.candidates is None\<close> only, and \<open>chunk.candidates[0]\<close> then raises IndexError,
  which ends the run; the chunks after it are not processed.
\<close>

theorem empty_candidates_list_raises:
  "process_api_stream_response pf (Chunk (Some []) # cs, err) od w =
     (Inl (IndexError ''list index out of range''), w)"
  by (simp add: process_api_stream_response_def process_chunk_def)

lemma suffix_os_path_join: "suffix s b \<Longrightarrow> suffix s (os_path_join a b)"
  by (auto simp: os_path_join_def suffix_def)

text \<open>
  C10. An image part whose MIME type has no extension in the table does not make the
  demultiplexer raise: the file is written, under a name that ends in the text None.
\<close>

theorem unknown_mime_type_gives_None_suffix:
  assumes "inline_data p = Some (Blob (Some d) (Some m))" and "d \<noteq> []"
    and "guess_extension pf m = None"
  shows "\<exists>w' name.
           process_part pf od p i w = (Inr (Suc i), w') \<and>
           name = os_path_join od
                    (''remixed_image_'' @ str_int (now pf (ticks w)) @ ''_'' @ str_int (int i) @ ''None'') \<and>
           suffix ''None'' name \<and>
           trace w' = trace w @ [Write name d, Print (''File saved to: '' @ name)] \<and>
           map_of (fs w') name = Some d"
proof -
  let ?name = "os_path_join od
                 (''remixed_image_'' @ str_int (now pf (ticks w)) @ ''_'' @ str_int (int i) @ ''None'')"
  have "suffix ''None'' (''remixed_image_'' @ str_int (now pf (ticks w)) @ ''_'' @ str_int (int i) @ ''None'')"
    unfolding suffix_def by (metis append.assoc)
  then have "suffix ''None'' ?name" by (rule suffix_os_path_join)
  then show ?thesis
    using assms
    by (simp add: process_part_def save_image_def save_binary_file_def write_file_def print_def
                  file_name_of_def str_opt_def Let_def)
qed

text \<open>
  C10 on a part of type image/x-unknown.
\<close>

theorem unknown_mime_type_gives_None_suffix_witness:
  "process_part (platform_ex ([], None)) ''output''
     (Part (Some (Blob (Some [1, 2, 3]) (Some ''image/x-unknown''))) None) 0 world_ex =
   (Inr 1,
    world_ex\<lparr>fs := (''output/remixed_image_1700000000_0None'', [1, 2, 3]) # fs world_ex,
             trace := [Write ''output/remixed_image_1700000000_0None'' [1, 2, 3],
                       Print ''File saved to: output/remixed_image_1700000000_0None''],
             ticks := 1\<rparr>)"
  using unknown_mime_type_gives_None_suffix
          [of "Part (Some (Blob (Some [1, 2, 3]) (Some ''image/x-unknown''))) None"
              "[1, 2, 3]" "''image/x-unknown''" "platform_ex ([], None)" "''output''" 0 world_ex]
  by (simp add: ex_defs run_defs str_int_ex)

section \<open>The request\<close>

lemma load_image_parts_unresolvable:
  "\<exists>p\<in>set image_paths. guess_type pf p = None \<Longrightarrow>
   \<exists>e. load_image_parts pf w image_paths = Inl e \<and>
       (e \<in> FileNotFoundError ` set image_paths \<or>
        e \<in> (\<lambda>p. ValueError (''Could not determine MIME type for '' @ p)) `
              {p \<in> set image_paths. guess_type pf p = None})"
proof (induction image_paths)
  case Nil
  then show ?case by simp
next
  case (Cons a rest)
  show ?case
  proof (cases "map_of (fs w) a")
    case None
    then show ?thesis by simp
  next
    case (Some d)
    show ?thesis
    proof (cases "guess_type pf a")
      case None
      with Some show ?thesis by (simp add: get_mime_type_def)
    next
      case (Some m)
      with Cons.prems have "\<exists>p\<in>set rest. guess_type pf p = None" by auto
      from Cons.IH [OF this] obtain e where
        e: "load_image_parts pf w rest = Inl e"
           "e \<in> FileNotFoundError ` set rest \<or>
            e \<in> (\<lambda>p. ValueError (''Could not determine MIME type for '' @ p)) `
                  {p \<in> set rest. guess_type pf p = None}"
        by blast
      from e(2) have "e \<in> FileNotFoundError ` set (a # rest) \<or>
            e \<in> (\<lambda>p. ValueError (''Could not determine MIME type for '' @ p)) `
                  {p \<in> set (a # rest). guess_type pf p = None}"
        by auto
      with e(1) Some \<open>map_of (fs w) a = Some d\<close> show ?thesis
        by (simp add: get_mime_type_def)
    qed
  qed
qed

text \<open>
  C3. When the MIME type of one of the input files cannot be inferred, \<open>remix_images\<close>
  raises and leaves the world as it was: nothing is printed, nothing is sent. The error
  is the missing key, a file that cannot be opened, or the ValueError that names a file
  whose type is unknown; no type is made up.
\<close>

theorem unresolvable_mime_type_fails_before_the_call:
  assumes "\<exists>p\<in>set image_paths. guess_type pf p = None"
  shows "\<exists>e. remix_images pf image_paths prompt output_dir w = (Inl e, w) \<and>
             (e = ValueError ''GEMINI_API_KEY environment variable not set.'' \<or>
              e \<in> FileNotFoundError ` set image_paths \<or>
              e \<in> (\<lambda>p. ValueError (''Could not determine MIME type for '' @ p)) `
                    {p \<in> set image_paths. guess_type pf p = None})"
proof -
  from load_image_parts_unresolvable [OF assms, of w] obtain e where
    "load_image_parts pf w image_paths = Inl e"
    "e \<in> FileNotFoundError ` set image_paths \<or>
     e \<in> (\<lambda>p. ValueError (''Could not determine MIME type for '' @ p)) `
           {p \<in> set image_paths. guess_type pf p = None}"
    by blast
  then show ?thesis
    by (auto simp: remix_images_def)
qed

text \<open>
  C3 on a list whose second file is a .bmp.
\<close>

theorem unresolvable_mime_type_fails_before_the_call_witness:
  "(\<exists>p\<in>set [''vorm/rond.jpeg'', ''notes.bmp'', ''kleur/eiken.jpg''].
      guess_type (platform_ex (stream_ex, None)) p = None) \<and>
   remix_images (platform_ex (stream_ex, None)) [''vorm/rond.jpeg'', ''notes.bmp'', ''kleur/eiken.jpg'']
       ''mix'' ''output'' world_ex =
     (Inl (ValueError ''Could not determine MIME type for notes.bmp''), world_ex)"
  using unresolvable_mime_type_fails_before_the_call
          [of "[''vorm/rond.jpeg'', ''notes.bmp'', ''kleur/eiken.jpg'']" "platform_ex (stream_ex, None)"
              "''mix''" "''output''" world_ex]
  by (simp add: remix_images_def get_mime_type_def platform_ex_def guess_type_ex_def world_ex_def
                suffix_def)

lemma load_image_parts_ok:
  "map (map_of (fs w)) image_paths = map Some datas \<Longrightarrow>
   map (guess_type pf) image_paths = map Some mimes \<Longrightarrow>
   load_image_parts pf w image_paths = Inr (map2 image_part datas mimes)"
proof (induction image_paths arbitrary: datas mimes)
  case Nil
  then show ?case by simp
next
  case (Cons a rest)
  from Cons.prems obtain d ds m ms where
    "datas = d # ds" "mimes = m # ms" "map_of (fs w) a = Some d" "guess_type pf a = Some m"
    "map (map_of (fs w)) rest = map Some ds" "map (guess_type pf) rest = map Some ms"
    by (cases datas; cases mimes) auto
  with Cons.IH [of ds ms] show ?case
    by (simp add: get_mime_type_def image_part_def)
qed

text \<open>
  C6. With the key set, every file readable and every MIME type known, the one request
  sent holds one image part per input file, in the order of the input list, and then
  the text part: n + 1 parts for n files. This holds for every n, so for 1 to 5.
\<close>

theorem request_has_the_images_in_order_then_the_text:
  assumes "api_key pf = Some key" and "key \<noteq> []"
    and "map (map_of (fs w)) image_paths = map Some datas"
    and "map (guess_type pf) image_paths = map Some mimes"
  shows "calls_of (trace (snd (remix_images pf image_paths prompt od w))) =
           calls_of (trace w) @
           [(MODEL_NAME, map2 image_part datas mimes @ [Part None (Some prompt)], [''IMAGE'', ''TEXT''])] \<and>
         length (map2 image_part datas mimes @ [Part None (Some prompt)]) = length image_paths + 1"
proof -
  have len: "length datas = length image_paths" "length mimes = length image_paths"
    using assms(3,4) by (metis length_map)+
  have load: "load_image_parts pf w image_paths = Inr (map2 image_part datas mimes)"
    using assms(3,4) by (rule load_image_parts_ok)
  show ?thesis
    using assms(1,2) len
    by (simp add: remix_images_def load Let_def print_def process_api_stream_response_calls)
qed

text \<open>
  C6 on three images and the prompt without a room.
\<close>

theorem request_has_the_images_in_order_then_the_text_witness:
  "calls_of (trace (snd (remix_images (platform_ex ([], None))
       [''vorm/rond.jpeg'', ''onderstel/kruis.png'', ''kleur/eiken.jpg'']
       (generate_table_prompt False []) ''output'' world_ex))) =
     [(MODEL_NAME,
       [image_part [1, 2] ''image/jpeg'', image_part [3] ''image/png'',
        image_part [4, 5, 6] ''image/jpeg'', Part None (Some (generate_table_prompt False []))],
       [''IMAGE'', ''TEXT''])]"
  using request_has_the_images_in_order_then_the_text
          [of "platform_ex ([], None)" "''secret''" world_ex
              "[''vorm/rond.jpeg'', ''onderstel/kruis.png'', ''kleur/eiken.jpg'']"
              "[[1, 2], [3], [4, 5, 6]]" "[''image/jpeg'', ''image/png'', ''image/jpeg'']"
              "generate_table_prompt False []" "''output''"]
  by (simp add: platform_ex_def world_ex_def guess_type_ex_def suffix_def)

text \<open>
  C7 as the specification states it fails: \<open>remix_images\<close> does not count its images.
  Called with an empty list it raises nothing and sends a request of one text part.
\<close>

theorem remix_images_sends_a_request_without_images:
  "remix_images (platform_ex ([], None)) [] ''mix'' ''output'' world_ex =
     (Inr (),
      world_ex\<lparr>trace := [Print ''Remixing with 0 images and prompt: mix'',
                          RemoteCall MODEL_NAME [Part None (Some ''mix'')] [''IMAGE'', ''TEXT'']]\<rparr>)"
  by (simp add: remix_images_def platform_ex_def world_ex_def print_def str_int_ex
                process_api_stream_response_def)

text \<open>
  C7, as the code has it. The count is checked by the command line: given more than
  five images, \<open>main\<close> leaves through \<open>parser.error\<close> (exit status 2) before
  \<open>remix_images\<close> is called, so no request is sent and no file is written.
  \<open>remix_images\<close> itself does not look at the length of its list: with the key set
  and the files loaded it sends the request, the loaded parts and then the text part,
  whatever their number.
\<close>

theorem main_rejects_more_than_five_images:
  "(5 < length (arg_image a) \<longrightarrow>
      fst (main_cli pf a w) = Inl (SystemExit 2) \<and>
      calls_of (trace (snd (main_cli pf a w))) = calls_of (trace w) \<and>
      writes_of (trace (snd (main_cli pf a w))) = writes_of (trace w)) \<and>
   (api_key pf = Some key \<and> key \<noteq> [] \<and> load_image_parts pf w image_paths = Inr ps \<longrightarrow>
      calls_of (trace (snd (remix_images pf image_paths prompt od w))) =
        calls_of (trace w) @
        [(MODEL_NAME, ps @ [Part None (Some prompt)], [''IMAGE'', ''TEXT''])])"
proof -
  have cli: "fst (main_cli pf a w) = Inl (SystemExit 2) \<and>
      calls_of (trace (snd (main_cli pf a w))) = calls_of (trace w) \<and>
      writes_of (trace (snd (main_cli pf a w))) = writes_of (trace w)"
    if "5 < length (arg_image a)"
    using that
    by (auto simp: main_cli_def add_room_image_def print_def Let_def split: option.splits)
  have core: "calls_of (trace (snd (remix_images pf image_paths prompt od w))) =
        calls_of (trace w) @
        [(MODEL_NAME, ps @ [Part None (Some prompt)], [''IMAGE'', ''TEXT''])]"
    if "api_key pf = Some key \<and> key \<noteq> [] \<and> load_image_parts pf w image_paths = Inr ps"
    using that
    by (simp add: remix_images_def Let_def print_def process_api_stream_response_calls)
  from cli core show ?thesis by blast
qed

text \<open>
  C7 on six images for the command line, and on no image and on six images for
  \<open>remix_images\<close>.
\<close>

theorem main_rejects_more_than_five_images_witness:
  "main_cli (platform_ex (stream_ex, None))
     \<lparr>arg_image = [''a.png'', ''b.png'', ''c.png'', ''d.png'', ''e.png'', ''f.png''],
      arg_prompt = None, arg_output_dir = ''output'', arg_room_image = None, arg_legs = None\<rparr>
     world_ex = (Inl (SystemExit 2), world_ex) \<and>
   calls_of (trace (snd (remix_images (platform_ex ([], None)) [] ''mix'' ''output'' world_ex))) =
     [(MODEL_NAME, [Part None (Some ''mix'')], [''IMAGE'', ''TEXT''])] \<and>
   calls_of (trace (snd (remix_images (platform_ex ([], None))
       [''vorm/rond.jpeg'', ''vorm/rond.jpeg'', ''vorm/rond.jpeg'', ''vorm/rond.jpeg'',
        ''vorm/rond.jpeg'', ''vorm/rond.jpeg''] ''mix'' ''output'' world_ex))) =
     [(MODEL_NAME,
       [image_part [1, 2] ''image/jpeg'', image_part [1, 2] ''image/jpeg'',
        image_part [1, 2] ''image/jpeg'', image_part [1, 2] ''image/jpeg'',
        image_part [1, 2] ''image/jpeg'', image_part [1, 2] ''image/jpeg'',
        Part None (Some ''mix'')],
       [''IMAGE'', ''TEXT''])]"
proof -
  have six: "(5::nat) < length [''a.png'', ''b.png'', ''c.png'', ''d.png'', ''e.png'', ''f.png'']"
    by simp
  have key: "api_key (platform_ex ([], None)) = Some ''secret''" "''secret'' \<noteq> []"
    by (simp_all add: platform_ex_def)
  have none: "load_image_parts (platform_ex ([], None)) world_ex [] = Inr []"
    by simp
  have many: "load_image_parts (platform_ex ([], None)) world_ex
      [''vorm/rond.jpeg'', ''vorm/rond.jpeg'', ''vorm/rond.jpeg'', ''vorm/rond.jpeg'',
       ''vorm/rond.jpeg'', ''vorm/rond.jpeg''] =
     Inr [image_part [1, 2] ''image/jpeg'', image_part [1, 2] ''image/jpeg'',
          image_part [1, 2] ''image/jpeg'', image_part [1, 2] ''image/jpeg'',
          image_part [1, 2] ''image/jpeg'', image_part [1, 2] ''image/jpeg'']"
    by (simp add: platform_ex_def world_ex_def guess_type_ex_def get_mime_type_def image_part_def
                  suffix_def)
  note cli = main_rejects_more_than_five_images
      [where a = "\<lparr>arg_image = [''a.png'', ''b.png'', ''c.png'', ''d.png'', ''e.png'', ''f.png''],
                     arg_prompt = None, arg_output_dir = ''output'', arg_room_image = None,
                     arg_legs = None\<rparr>"
         and pf = "platform_ex (stream_ex, None)" and w = world_ex, THEN conjunct1]
  note core0 = main_rejects_more_than_five_images
      [where pf = "platform_ex ([], None)" and w = world_ex and key = "''secret''"
         and prompt = "''mix''" and od = "''output''" and image_paths = "[]" and ps = "[]",
       THEN conjunct2]
  note core6 = main_rejects_more_than_five_images
      [where pf = "platform_ex ([], None)" and w = world_ex and key = "''secret''"
         and prompt = "''mix''" and od = "''output''"
         and image_paths = "[''vorm/rond.jpeg'', ''vorm/rond.jpeg'', ''vorm/rond.jpeg'',
                             ''vorm/rond.jpeg'', ''vorm/rond.jpeg'', ''vorm/rond.jpeg'']"
         and ps = "[image_part [1, 2] ''image/jpeg'', image_part [1, 2] ''image/jpeg'',
                    image_part [1, 2] ''image/jpeg'', image_part [1, 2] ''image/jpeg'',
                    image_part [1, 2] ''image/jpeg'', image_part [1, 2] ''image/jpeg'']",
       THEN conjunct2]
  have a: "main_cli (platform_ex (stream_ex, None))
     \<lparr>arg_image = [''a.png'', ''b.png'', ''c.png'', ''d.png'', ''e.png'', ''f.png''],
      arg_prompt = None, arg_output_dir = ''output'', arg_room_image = None, arg_legs = None\<rparr>
     world_ex = (Inl (SystemExit 2), world_ex)"
    using cli six by (simp add: main_cli_def add_room_image_def)
  have b: "calls_of (trace (snd (remix_images (platform_ex ([], None)) [] ''mix'' ''output'' world_ex))) =
     [(MODEL_NAME, [Part None (Some ''mix'')], [''IMAGE'', ''TEXT''])]"
    using core0 key none by (simp add: world_ex_def)
  have c: "calls_of (trace (snd (remix_images (platform_ex ([], None))
       [''vorm/rond.jpeg'', ''vorm/rond.jpeg'', ''vorm/rond.jpeg'', ''vorm/rond.jpeg'',
        ''vorm/rond.jpeg'', ''vorm/rond.jpeg''] ''mix'' ''output'' world_ex))) =
     [(MODEL_NAME,
       [image_part [1, 2] ''image/jpeg'', image_part [1, 2] ''image/jpeg'',
        image_part [1, 2] ''image/jpeg'', image_part [1, 2] ''image/jpeg'',
        image_part [1, 2] ''image/jpeg'', image_part [1, 2] ''image/jpeg'',
        Part None (Some ''mix'')],
       [''IMAGE'', ''TEXT''])]"
    using core6 key many by (simp add: world_ex_def)
  from a b c show ?thesis by simp
qed

section \<open>A run without images\<close>










lemma str_int_more:
  "str_int 2 = ''2''" "str_int 4 = ''4''" "str_int 500 = ''500''"
  by (simp_all add: str_int_def str_nat.simps digit_char_def)






lemma api_ex_files:
  "path_child (path_child ''/srv'' ''vorm'') (safe_filename ''rond.jpeg'') = ''/srv/vorm/rond.jpeg''"
  "path_child (path_child ''/srv'' ''onderstel'') (safe_filename ''../kruis.png'') =
     ''/srv/onderstel/kruis.png''"
  "path_child (path_child ''/srv'' ''kleur'') (safe_filename ''eiken.jpg'') = ''/srv/kleur/eiken.jpg''"
  by (simp_all add: path_child_def safe_filename_def path_name_def)

lemmas endpoint_defs = path_exists_def save_room_photo_def MAX_FILE_SIZE_def
  OUTPUT_DIR_def path_child_def write_file_def platform_ex_def generate_and_find_def
  remix_images_def get_mime_type_def guess_type_ex_def suffix_def print_def Let_def
  str_int_ex str_int_more process_api_stream_response_def process_chunk_def chunk_of_def
  process_part_def print_text_def output_files_def is_output_def generation_failed_def
  is_exception_def str_error_def cleanup_def unlink_def image_part_def




text \<open>
  When the output directory still holds the file of an earlier generation, the search of
  the endpoint finds that file, and a generation that produced no image is answered with
  it.
\<close>

lemma endpoint_answers_with_an_earlier_file:
  "fst (generate_table (platform_ex ([], None)) ''/srv'' ''0123456789abcdef''
          ''rond.jpeg'' ''../kruis.png'' ''eiken.jpg'' None world_stale_ex) =
     Inr \<lparr>success = True, output_url = ''/api/output/remixed_image_1600000000_0.png'',
          filename = ''remixed_image_1600000000_0.png'',
          message = ''Table generated successfully''\<rparr>"
  unfolding generate_table_def api_ex_files
  by (simp add: world_stale_ex_def endpoint_defs path_name_def)

section \<open>The prompt\<close>

lemma templates_without_legs:
  "\<not> sublist ''legs'' room_template" "\<not> sublist ''legs'' showroom_template"
  unfolding room_template_def showroom_template_def by code_simp+

lemma templates_without_lowercase_clause:
  "\<not> sublist ''the table must'' room_template" "\<not> sublist ''the table must'' showroom_template"
  unfolding room_template_def showroom_template_def by code_simp+

text \<open>
  C4. For a leg count of 2, 3 or 4 and either template, the prompt contains the text
  exactly N legs; for an empty leg count the prompt does not mention legs at all.
\<close>

theorem prompt_names_the_leg_count:
  "(legs \<in> {''2'', ''3'', ''4''} \<longrightarrow>
      sublist (''exactly '' @ legs @ '' legs'') (generate_table_prompt with_room legs)) \<and>
   \<not> sublist ''legs'' (generate_table_prompt with_room [])"
proof
  show "legs \<in> {''2'', ''3'', ''4''} \<longrightarrow>
          sublist (''exactly '' @ legs @ '' legs'') (generate_table_prompt with_room legs)"
  proof
    assume "legs \<in> {''2'', ''3'', ''4''}"
    then have ne: "legs \<noteq> []" by auto
    let ?t = "if with_room then room_template else showroom_template"
    have "generate_table_prompt with_room legs =
            (?t @ '' IMPORTANT: The table must have '') @ (''exactly '' @ legs @ '' legs'') @ ''.''"
      using ne by (simp add: generate_table_prompt_def legs_instruction_def)
    then show "sublist (''exactly '' @ legs @ '' legs'') (generate_table_prompt with_room legs)"
      unfolding sublist_def by blast
  qed
  show "\<not> sublist ''legs'' (generate_table_prompt with_room [])"
    by (simp add: generate_table_prompt_def legs_instruction_def templates_without_legs)
qed

text \<open>
  C4 at 2, 3 and 4.
\<close>

theorem prompt_names_the_leg_count_witness:
  "sublist ''exactly 2 legs'' (generate_table_prompt True ''2'') \<and>
   sublist ''exactly 3 legs'' (generate_table_prompt False ''3'') \<and>
   sublist ''exactly 4 legs'' (generate_table_prompt True ''4'')"
  using prompt_names_the_leg_count [of "''2''" True] prompt_names_the_leg_count [of "''3''" False]
        prompt_names_the_leg_count [of "''4''" True]
  by simp

text \<open>
  C5 as the specification states it fails: the clause as quoted there, with a lowercase
  t, is not part of the prompt for four legs.
\<close>

theorem lowercase_clause_is_not_in_the_prompt:
  "\<not> sublist ''the table must have exactly 4 legs.'' (generate_table_prompt False ''4'')"
  unfolding generate_table_prompt_def legs_instruction_def showroom_template_def by code_simp

text \<open>
  C5, as the code has it. For a leg count that is not empty, the prompt is the template
  followed by the clause of the source, which starts with IMPORTANT and a capital T.
\<close>

theorem legs_clause_is_appended:
  assumes "legs \<noteq> []"
  shows "generate_table_prompt with_room legs =
           (if with_room then room_template else showroom_template) @
           '' IMPORTANT: The table must have exactly '' @ legs @ '' legs.''"
  using assms by (simp add: generate_table_prompt_def legs_instruction_def)

text \<open>
  C5 at three legs, for both templates.
\<close>

theorem legs_clause_is_appended_witness:
  "generate_table_prompt True ''3'' =
     room_template @ '' IMPORTANT: The table must have exactly 3 legs.'' \<and>
   generate_table_prompt False ''3'' =
     showroom_template @ '' IMPORTANT: The table must have exactly 3 legs.''"
  using legs_clause_is_appended [of "''3''" True] legs_clause_is_appended [of "''3''" False]
  by simp

end
